theory Spec2Isabelle
  imports Main
begin

text \<open>
  A shallow embedding of \<open>src/Server.cpp\<close>, the RESP-like key/value server: the C library
  calls it relies on, \<open>ValueWithExpiry\<close>, \<open>parse_resp\<close>, \<open>to_upper\<close>, \<open>handle_command\<close> and
  the loops of \<open>handle_client\<close>, followed by the properties of the specification that
  were checked against them. The model is sequential: one call of \<open>handle_command\<close> at a
  time on an explicit store, as under \<open>kv_mutex\<close>.
\<close>

section \<open>Bytes and the C library functions the server calls\<close>

text \<open>
  A \<open>std::string\<close> is a sequence of bytes: \<^typ>\<open>string\<close>, a list of 8-bit characters.
  The program never calls \<open>setlocale\<close>, so the character classes are those of the "C" locale.
\<close>

definition CR :: char where
  "CR = CHR 0x0D"

definition LF :: char where
  "LF = CHR 0x0A"

definition CRLF :: string where
  "CRLF = [CR, LF]"

definition toupper :: "char \<Rightarrow> char" where
  \<comment> \<open>\<open>toupper\<close> of the "C" locale: only \<open>a\<close> .. \<open>z\<close> change.\<close>
  "toupper c =
     (if 97 \<le> (of_char c :: nat) \<and> (of_char c :: nat) \<le> 122
      then char_of ((of_char c :: nat) - 32) else c)"

definition isspace :: "char \<Rightarrow> bool" where
  \<comment> \<open>space, \<open>\t\<close>, \<open>\n\<close>, \<open>\v\<close>, \<open>\f\<close>, \<open>\r\<close>\<close>
  "isspace c = ((of_char c :: nat) = 32 \<or> (9 \<le> (of_char c :: nat) \<and> (of_char c :: nat) \<le> 13))"

definition isdigit :: "char \<Rightarrow> bool" where
  "isdigit c = (48 \<le> (of_char c :: nat) \<and> (of_char c :: nat) \<le> 57)"

definition digit_value :: "char \<Rightarrow> int" where
  "digit_value c = int (of_char c) - 48"

text \<open>
  \<open>strtol(s, &end, 10)\<close>, on which \<open>std::stoi\<close> and \<open>std::stol\<close> are built: leading white
  space is skipped, one sign is accepted, then the longest run of decimal digits is
  read and whatever follows is ignored. \<open>None\<close> is "no conversion" (\<open>end == s\<close>);
  otherwise the mathematical value read, before any range check.
\<close>

definition strtol10 :: "string \<Rightarrow> int option" where
  "strtol10 s =
     (let s1 = dropWhile isspace s;
          neg = (case s1 of [] \<Rightarrow> False | c # _ \<Rightarrow> c = CHR ''-'');
          s2 = (case s1 of [] \<Rightarrow> [] | c # r \<Rightarrow> if c = CHR ''-'' \<or> c = CHR ''+'' then r else s1);
          ds = takeWhile isdigit s2;
          v = foldl (\<lambda>a c. 10 * a + digit_value c) 0 ds
      in if ds = [] then None else Some (if neg then - v else v))"

datatype exn = invalid_argument | out_of_range

definition stoi :: "string \<Rightarrow> exn + int" where
  \<comment> \<open>\<open>int\<close> has 32 bits\<close>
  "stoi s =
     (case strtol10 s of
        None \<Rightarrow> Inl invalid_argument
      | Some v \<Rightarrow> if - (2 ^ 31) \<le> v \<and> v \<le> 2 ^ 31 - 1 then Inr v else Inl out_of_range)"

definition stol :: "string \<Rightarrow> exn + int" where
  \<comment> \<open>\<open>long\<close> has 64 bits (LP64, the platform of the POSIX sockets the server uses)\<close>
  "stol s =
     (case strtol10 s of
        None \<Rightarrow> Inl invalid_argument
      | Some v \<Rightarrow> if - (2 ^ 63) \<le> v \<and> v \<le> 2 ^ 63 - 1 then Inr v else Inl out_of_range)"

section \<open>Everything that can go wrong outside a reply\<close>

datatype fault =
    OutOfRange nat  \<comment> \<open>\<open>parts[i]\<close> read with \<open>i \<ge> parts.size()\<close>: undefined behaviour\<close>
  | Uncaught exn    \<comment> \<open>an exception leaves the thread function: \<open>std::terminate\<close>\<close>
  | SignedOverflow  \<comment> \<open>overflow of the clock's signed 64-bit tick count: undefined behaviour\<close>

definition bind :: "fault + 'a \<Rightarrow> ('a \<Rightarrow> fault + 'b) \<Rightarrow> fault + 'b" where
  "bind m f = (case m of Inl e \<Rightarrow> Inl e | Inr x \<Rightarrow> f x)"

section \<open>The store\<close>

text \<open>
  \<open>steady_clock::time_point\<close> counts nanoseconds in a signed 64-bit integer. A time is the
  tick count; the two constructors of \<open>ValueWithExpiry\<close> are \<open>ValueWithExpiry\<close> (value only:
  the time point is value-initialised, zero ticks) and \<open>ValueWithExpiry_px\<close>, which reads
  the clock (\<open>now\<close>) and adds \<open>px_millis\<close> milliseconds converted to nanoseconds.
\<close>

type_synonym time_point = int

record ValueWithExpiry =
  value' :: string
  expiry :: time_point
  has_expiry :: bool

definition in_int64 :: "int \<Rightarrow> bool" where
  "in_int64 v = (- (2 ^ 63) \<le> v \<and> v \<le> 2 ^ 63 - 1)"

definition ValueWithExpiry :: "string \<Rightarrow> ValueWithExpiry" where
  "ValueWithExpiry val = \<lparr>value' = val, expiry = 0, has_expiry = False\<rparr>"

definition ValueWithExpiry_px :: "string \<Rightarrow> int \<Rightarrow> time_point \<Rightarrow> fault + ValueWithExpiry" where
  "ValueWithExpiry_px val px_millis now =
     (let d = px_millis * 1000000
      in if in_int64 d \<and> in_int64 (now + d)
         then Inr \<lparr>value' = val, expiry = now + d, has_expiry = True\<rparr>
         else Inl SignedOverflow)"

definition is_expired :: "ValueWithExpiry \<Rightarrow> time_point \<Rightarrow> bool" where
  "is_expired e now = (if \<not> has_expiry e then False else now > expiry e)"

type_synonym kv_store = "string \<rightharpoonup> ValueWithExpiry"

section \<open>parse_resp\<close>

text \<open>
  The \<open>std::istringstream\<close>: the bytes not yet read, and whether the stream is still
  \<open>good()\<close>. \<open>std::getline(iss, line)\<close> on a stream that is not good leaves \<open>line\<close>
  as it was (the sentry fails before \<open>line\<close> is erased); on a good stream \<open>line\<close> is
  erased, bytes are moved to it up to the next \<open>\n\<close>, which is dropped, and reaching
  the end of the input instead sets \<open>eofbit\<close> (and \<open>failbit\<close> if nothing was read).
\<close>

record istringstream =
  rest :: string
  good :: bool

definition getline :: "istringstream \<Rightarrow> string \<Rightarrow> istringstream \<times> string" where
  "getline iss line =
     (if \<not> good iss then (iss, line)
      else
        (case dropWhile (\<lambda>c. c \<noteq> LF) (rest iss) of
           [] \<Rightarrow> (\<lparr>rest = [], good = False\<rparr>, takeWhile (\<lambda>c. c \<noteq> LF) (rest iss))
         | _ # r \<Rightarrow> (\<lparr>rest = r, good = True\<rparr>, takeWhile (\<lambda>c. c \<noteq> LF) (rest iss))))"

definition front :: "string \<Rightarrow> char" where
  \<comment> \<open>\<open>line[0]\<close>: on the empty string this is the terminating \<open>\0\<close>\<close>
  "front line = (case line of [] \<Rightarrow> CHR 0x00 | c # _ \<Rightarrow> c)"

text \<open>The \<open>for\<close> loop of \<open>parse_resp\<close>, with the number of iterations left.\<close>

fun parse_loop :: "nat \<Rightarrow> istringstream \<Rightarrow> string \<Rightarrow> string list \<Rightarrow> string list" where
  "parse_loop 0 iss line parts = parts"
| "parse_loop (Suc n) iss line parts =
     (case getline iss line of (iss1, line1) \<Rightarrow>
        if front line1 \<noteq> CHR ''$'' then parse_loop n iss1 line1 parts
        else (case getline iss1 line1 of (iss2, line2) \<Rightarrow>
                parse_loop n iss2 line2 (parts @ [line2])))"

definition parse_resp :: "string \<Rightarrow> exn + string list" where
  "parse_resp input =
     (case getline \<lparr>rest = input, good = True\<rparr> [] of (iss, line) \<Rightarrow>
        if front line \<noteq> CHR ''*'' then Inr []
        else (case stoi (drop 1 line) of
                Inl e \<Rightarrow> Inl e
              | Inr array_len \<Rightarrow> Inr (parse_loop (nat array_len) iss line [])))"

section \<open>handle_command\<close>

definition to_upper :: "string \<Rightarrow> string" where
  "to_upper str = map toupper str"

definition at :: "string list \<Rightarrow> nat \<Rightarrow> fault + string" where
  \<comment> \<open>\<open>parts[i]\<close>\<close>
  "at parts i = (if i < length parts then Inr (parts ! i) else Inl (OutOfRange i))"

text \<open>
  \<open>handle_command\<close> returns the reply and works on the global \<open>kv_store\<close>: the model takes
  the store and returns it with the reply. \<open>now\<close> is what \<open>steady_clock::now()\<close> returns
  during the call (it is read at most once, by the constructor or by \<open>is_expired\<close>).
  In \<open>kv_store[k] = ValueWithExpiry(...)\<close> the right-hand side is evaluated first.
\<close>

definition handle_command :: "string list \<Rightarrow> time_point \<Rightarrow> kv_store \<Rightarrow> fault + (string \<times> kv_store)" where
  "handle_command parts now kv =
     (if parts = [] then Inr (''-ERR empty command'' @ CRLF, kv)
      else bind (at parts 0) (\<lambda>p0.
        let command = to_upper p0 in
        if command = ''PING'' then Inr (''+PONG'' @ CRLF, kv)
        else if command = ''ECHO'' \<and> length parts > 1 then
          bind (at parts 1) (\<lambda>p1. Inr (''+'' @ p1 @ CRLF, kv))
        else if command = ''SET'' \<and> length parts \<ge> 2 then
          (if length parts \<ge> 4 \<and> (case at parts 3 of Inr p3 \<Rightarrow> to_upper p3 = ''PX'' | Inl _ \<Rightarrow> False)
               \<and> length parts \<ge> 5
           then
             bind (at parts 4) (\<lambda>p4.
               case stol p4 of
                 Inl e \<Rightarrow> Inr (''-ERR invalid expire time in 'set' command'' @ CRLF, kv)
               | Inr px_millis \<Rightarrow>
                   bind (at parts 2) (\<lambda>p2.
                   bind (ValueWithExpiry_px p2 px_millis now) (\<lambda>v.
                   bind (at parts 1) (\<lambda>p1.
                     Inr (''+OK'' @ CRLF, kv(p1 \<mapsto> v))))))
           else
             bind (at parts 2) (\<lambda>p2.
             bind (at parts 1) (\<lambda>p1.
               Inr (''+OK'' @ CRLF, kv(p1 \<mapsto> ValueWithExpiry p2)))))
        else if command = ''GET'' \<and> length parts > 1 then
          bind (at parts 1) (\<lambda>p1.
            case kv p1 of
              None \<Rightarrow> Inr (''$-1'' @ CRLF, kv)
            | Some e \<Rightarrow>
                if \<not> is_expired e now then Inr (''+'' @ value' e @ CRLF, kv)
                else Inr (''$-1'' @ CRLF, kv(p1 := None)))
        else Inr (''-ERR unknown command'' @ CRLF, kv)))"

section \<open>handle_client\<close>

text \<open>\<open>incomplete_data.find("\r\n")\<close>: the position of the first CR LF pair.\<close>

fun find_crlf :: "string \<Rightarrow> nat option" where
  "find_crlf (a # b # s) =
     (if a = CR \<and> b = LF then Some 0 else map_option Suc (find_crlf (b # s)))"
| "find_crlf _ = None"

text \<open>
  One connection as the inner loop of \<open>handle_client\<close> sees it: the bytes received and not
  yet consumed, the replies sent so far on the socket, the shared store, and how many
  commands were handled (the clock is a function of that number).
\<close>

record session =
  incomplete_data :: string
  sent :: "string list"
  store :: kv_store
  handled :: nat

function process_buffer :: "(nat \<Rightarrow> time_point) \<Rightarrow> session \<Rightarrow> fault + session" where
  "process_buffer clock s =
     (case find_crlf (incomplete_data s) of
        None \<Rightarrow> Inr s
      | Some pos \<Rightarrow>
          (let command = take (pos + 2) (incomplete_data s);
               remaining = drop (pos + 2) (incomplete_data s)
           in case parse_resp command of
                Inl e \<Rightarrow> Inl (Uncaught e)
              | Inr parts \<Rightarrow>
                  (case handle_command parts (clock (handled s)) (store s) of
                     Inl f \<Rightarrow> Inl f
                   | Inr (response, kv') \<Rightarrow>
                       process_buffer clock
                         \<lparr>incomplete_data = remaining, sent = sent s @ [response],
                          store = kv', handled = Suc (handled s)\<rparr>)))"
  by pat_completeness auto
termination
proof (relation "measure (\<lambda>(clock, s). length (incomplete_data s))")
  show "wf (measure (\<lambda>(clock, s). length (incomplete_data s)))"
    by simp
next
  fix clock :: "nat \<Rightarrow> time_point" and s :: session and pos command remaining parts x response kv'
  assume found: "find_crlf (incomplete_data s) = Some pos"
    and remaining: "remaining = drop (pos + 2) (incomplete_data s)"
  have "find_crlf b = Some n \<Longrightarrow> n + 2 \<le> length b" for b n
    by (induction b arbitrary: n rule: find_crlf.induct) (auto split: if_splits)
  from this [OF found] remaining
  show "((clock, \<lparr>incomplete_data = remaining, sent = sent s @ [response],
            store = kv', handled = Suc (handled s)\<rparr>), (clock, s))
          \<in> measure (\<lambda>(clock, s). length (incomplete_data s))"
    by simp
qed

text \<open>
  The outer loop. The list holds what the successive calls of \<open>recv\<close> return, each at
  most \<open>BUFFER_SIZE - 1\<close> bytes: bytes are appended to \<open>incomplete_data\<close> and the buffer is
  processed; a \<open>recv\<close> that returns nothing (the peer is gone, or the list is over) ends
  the loop and the socket is closed.
\<close>

fun handle_client :: "(nat \<Rightarrow> time_point) \<Rightarrow> string list \<Rightarrow> session \<Rightarrow> fault + session" where
  "handle_client clock [] s = Inr s"
| "handle_client clock (bytes # reads) s =
     (if bytes = [] then Inr s
      else bind (process_buffer clock (s\<lparr>incomplete_data := incomplete_data s @ bytes\<rparr>))
             (handle_client clock reads))"

section \<open>Fixtures and the specification's vocabulary\<close>

text \<open>The global \<open>kv_store\<close> is default-constructed: empty at startup.\<close>

definition empty_store :: kv_store where
  "empty_store = Map.empty"

text \<open>A clock that stands still, for worked examples.\<close>

definition fixed_clock :: "time_point \<Rightarrow> nat \<Rightarrow> time_point" where
  "fixed_clock t n = t"

text \<open>
  The specification's \<open>expires_at: Option<Instant>\<close> read off the two fields
  \<open>has_expiry\<close> and \<open>expiry\<close> of the source's struct.
\<close>

definition expires_at :: "ValueWithExpiry \<Rightarrow> time_point option" where
  "expires_at e = (if has_expiry e then Some (expiry e) else None)"

text \<open>
  The specification's words "parses as a non-negative integer", taken literally: a
  non-empty string of decimal digits.
\<close>

definition spec_non_negative_integer :: "string \<Rightarrow> bool" where
  "spec_non_negative_integer s = (s \<noteq> [] \<and> list_all isdigit s)"

text \<open>
  The specification's words "differs only in letter case": the two names have the same
  length and, position by position, the same byte or the two cases of one ASCII letter.
\<close>

definition same_letter :: "char \<Rightarrow> char \<Rightarrow> bool" where
  "same_letter a b =
     (a = b
      \<or> (97 \<le> (of_char a :: nat) \<and> (of_char a :: nat) \<le> 122 \<and> (of_char a :: nat) = of_char b + 32)
      \<or> (97 \<le> (of_char b :: nat) \<and> (of_char b :: nat) \<le> 122 \<and> (of_char b :: nat) = of_char a + 32))"

definition differ_only_in_case :: "string \<Rightarrow> string \<Rightarrow> bool" where
  "differ_only_in_case x y = list_all2 same_letter x y"

section \<open>Evaluation and the branches of handle_command\<close>

declare process_buffer.simps [simp del]

lemmas byte_defs = CRLF_def CR_def LF_def
lemmas strtol_defs = stoi_def stol_def strtol10_def isspace_def isdigit_def digit_value_def
lemmas parse_defs = parse_resp_def getline_def front_def
lemmas upper_defs = to_upper_def toupper_def char_of_def bit_Suc_0_iff
lemmas command_defs = handle_command_def bind_def at_def

lemma handle_command_empty: "handle_command [] now kv = Inr (''-ERR empty command'' @ CRLF, kv)"
  by (simp add: handle_command_def)

lemma handle_command_SET_plain:
  assumes "to_upper c = ''SET''"
    and "\<not> (2 \<le> length opts \<and> to_upper (opts ! 0) = ''PX'')"
  shows "handle_command (c # key # val # opts) now kv =
           Inr (''+OK'' @ CRLF, kv(key \<mapsto> ValueWithExpiry val))"
  using assms by (auto simp add: command_defs Let_def)

lemma handle_command_SET_px:
  assumes "to_upper c = ''SET''" and "to_upper p = ''PX''"
  shows "handle_command (c # key # val # p # ms # extra) now kv =
           (case stol ms of
              Inl e \<Rightarrow> Inr (''-ERR invalid expire time in 'set' command'' @ CRLF, kv)
            | Inr px_millis \<Rightarrow>
                bind (ValueWithExpiry_px val px_millis now)
                  (\<lambda>v. Inr (''+OK'' @ CRLF, kv(key \<mapsto> v))))"
  using assms by (auto simp add: command_defs Let_def split: sum.splits)

lemma handle_command_GET:
  assumes "to_upper g = ''GET''"
  shows "handle_command (g # key # extra) now kv =
           (case kv key of
              None \<Rightarrow> Inr (''$-1'' @ CRLF, kv)
            | Some e \<Rightarrow>
                if \<not> is_expired e now then Inr (''+'' @ value' e @ CRLF, kv)
                else Inr (''$-1'' @ CRLF, kv(key := None)))"
  using assms by (auto simp add: command_defs Let_def)

text \<open>The only read past the end of \<open>parts\<close> is that of \<open>parts[2]\<close> by a two-element SET.\<close>

lemma handle_command_out_of_range:
  assumes "handle_command parts now kv = Inl (OutOfRange i)"
  shows "i = 2 \<and> length parts = 2 \<and> to_upper (parts ! 0) = ''SET''"
  using assms
  by (auto simp add: command_defs Let_def ValueWithExpiry_px_def
           split: if_splits sum.splits option.splits)

lemma toupper_same_letter: "same_letter a b \<Longrightarrow> toupper a = toupper b"
  by (auto simp add: same_letter_def toupper_def)

lemma to_upper_differ: "differ_only_in_case x y \<Longrightarrow> to_upper x = to_upper y"
  unfolding differ_only_in_case_def to_upper_def
  by (induction x y rule: list_all2_induct) (auto dest: toupper_same_letter)

lemma handle_command_name:
  "to_upper c1 = to_upper c2 \<Longrightarrow>
     handle_command (c1 # args) now kv = handle_command (c2 # args) now kv"
  by (simp add: command_defs Let_def cong: sum.case_cong)

lemma handle_command_unknown:
  assumes "to_upper c \<notin> {''PING'', ''ECHO'', ''SET'', ''GET''}"
  shows "handle_command (c # args) now kv = Inr (''-ERR unknown command'' @ CRLF, kv)"
  using assms by (simp add: command_defs Let_def)

text \<open>A SET that was answered \<open>+OK\<close> has stored the value it was given under its key.\<close>

lemma SET_accepted_entry:
  assumes "to_upper c = ''SET''"
    and "handle_command (c # key # val # opts) now kv = Inr (''+OK'' @ CRLF, kv')"
  shows "\<exists>e. kv' = kv(key \<mapsto> e) \<and> value' e = val"
proof (cases "2 \<le> length opts \<and> to_upper (opts ! 0) = ''PX''")
  case False
  have "kv' = kv(key \<mapsto> ValueWithExpiry val)"
    using assms(2) handle_command_SET_plain [OF assms(1) False, of key val now kv] by simp
  then show ?thesis
    by (intro exI [of _ "ValueWithExpiry val"]) (simp add: ValueWithExpiry_def)
next
  case True
  then obtain p ms extra where opts: "opts = p # ms # extra" and p: "to_upper p = ''PX''"
    by (cases opts; cases "tl opts") auto
  show ?thesis
    using assms(2) handle_command_SET_px [OF assms(1) p, of key val ms extra now kv]
    unfolding opts
    by (auto simp add: bind_def ValueWithExpiry_px_def Let_def CRLF_def split: sum.splits if_splits)
qed

lemma parse_resp_wrong_sigil:
  assumes "front (takeWhile (\<lambda>c. c \<noteq> LF) input) \<noteq> CHR ''*''"
  shows "parse_resp input = Inr []"
  using assms by (simp add: parse_resp_def getline_def split: list.splits)

lemma parse_resp_negative_count:
  assumes "stoi (drop 1 (takeWhile (\<lambda>c. c \<noteq> LF) input)) = Inr n" and "n < 0"
  shows "parse_resp input = Inr []"
  using assms by (simp add: parse_resp_def getline_def split: list.splits)

text \<open>
  Once the stream is exhausted the loop of \<open>parse_resp\<close> adds nothing, so a single line
  (no LF before its last byte), which is all that \<open>handle_client\<close> passes when the lines of a
  request end in CR LF, never yields an argument.
\<close>

lemma parse_loop_exhausted:
  "parse_loop n \<lparr>rest = r, good = False\<rparr> [] parts = parts"
  by (induction n) (simp_all add: getline_def front_def)

lemma parse_loop_at_end:
  "parse_loop n \<lparr>rest = [], good = True\<rparr> line parts = parts"
  by (cases n) (simp_all add: getline_def front_def parse_loop_exhausted)

lemma single_line_yields_no_arguments:
  assumes "LF \<notin> set l"
  shows "parse_resp (l @ [LF]) = Inr [] \<or> (\<exists>e. parse_resp (l @ [LF]) = Inl e)"
proof -
  have "takeWhile (\<lambda>c. c \<noteq> LF) (l @ [LF]) = l" "dropWhile (\<lambda>c. c \<noteq> LF) (l @ [LF]) = [LF]"
    using assms by (induction l) auto
  then show ?thesis
    by (auto simp add: parse_resp_def getline_def parse_loop_at_end split: sum.splits)
qed

section \<open>Frame decoding\<close>

text \<open>
  C1. A valid frame \<open>*<N>\r\n\<close> followed by \<open>N\<close> elements \<open>$<len>\r\n<bytes>\r\n\<close> should be
  decoded into its \<open>N\<close> argument strings, driven by the declared lengths. The code does
  not do that, already on the frame of \<open>PING\<close>: \<open>handle_client\<close> cuts the buffer at every
  CR LF and hands \<open>parse_resp\<close> one line at a time, so the three lines of the frame are
  answered as three empty commands and \<open>PING\<close> is never seen; and \<open>parse_resp\<close> given the
  whole frame splits at LF and returns the argument with a trailing CR.
\<close>

theorem valid_frame_is_not_decoded:
  "process_buffer clock
     \<lparr>incomplete_data = ''*1'' @ CRLF @ ''$4'' @ CRLF @ ''PING'' @ CRLF,
      sent = [], store = kv, handled = 0\<rparr>
   = Inr \<lparr>incomplete_data = [],
          sent = [''-ERR empty command'' @ CRLF, ''-ERR empty command'' @ CRLF,
                  ''-ERR empty command'' @ CRLF],
          store = kv, handled = 3\<rparr>
   \<and> parse_resp (''*1'' @ CRLF @ ''$4'' @ CRLF @ ''PING'' @ CRLF) = Inr [''PING'' @ [CR]]"
  by (simp add: process_buffer.simps parse_defs strtol_defs byte_defs handle_command_empty
        eval_nat_numeral)

text \<open>
  C5. A buffer that holds only the beginning of a frame should be left untouched until
  the rest arrives. The code consumes every complete line of it: of the partial frame
  \<open>*1\r\n$4\r\nPI\<close> eight bytes are consumed and answered with two error replies, only
  \<open>PI\<close> stays buffered, and when the next read brings \<open>NG\r\n\<close> the request is answered with
  a third error, not with \<open>+PONG\<close>.
\<close>

theorem partial_frame_is_consumed:
  "process_buffer clock
     \<lparr>incomplete_data = ''*1'' @ CRLF @ ''$4'' @ CRLF @ ''PI'',
      sent = [], store = kv, handled = 0\<rparr>
   = Inr \<lparr>incomplete_data = ''PI'',
          sent = [''-ERR empty command'' @ CRLF, ''-ERR empty command'' @ CRLF],
          store = kv, handled = 2\<rparr>
   \<and> handle_client clock [''*1'' @ CRLF @ ''$4'' @ CRLF @ ''PI'', ''NG'' @ CRLF]
       \<lparr>incomplete_data = [], sent = [], store = kv, handled = 0\<rparr>
   = Inr \<lparr>incomplete_data = [],
          sent = [''-ERR empty command'' @ CRLF, ''-ERR empty command'' @ CRLF,
                  ''-ERR empty command'' @ CRLF],
          store = kv, handled = 3\<rparr>"
  by (simp add: bind_def process_buffer.simps parse_defs strtol_defs byte_defs
        handle_command_empty eval_nat_numeral)

text \<open>
  C4. Malformed input. The code has no protocol error and never closes a connection over
  what it received. A line whose first byte is not \<open>*\<close> (a wrong sigil), or whose count
  \<open>std::stoi\<close> reads as a negative \<open>int\<close> (a negative count within the 32-bit range), is
  decoded as the empty request: the reply \<open>-ERR empty command\<close> is sent, the store is
  untouched, and the session goes on with the bytes that follow the line. Counts on which
  \<open>std::stoi\<close> throws (no digits, or a value outside the range of \<open>int\<close>, such as
  \<open>-2147483649\<close>) are not covered by this statement.
\<close>

theorem malformed_line_answered_and_skipped:
  assumes "find_crlf (incomplete_data s) = Some pos"
    and "line = takeWhile (\<lambda>c. c \<noteq> LF) (take (pos + 2) (incomplete_data s))"
    and "front line \<noteq> CHR ''*'' \<or> (\<exists>n. stoi (drop 1 line) = Inr n \<and> n < 0)"
  shows "process_buffer clock s =
           process_buffer clock
             \<lparr>incomplete_data = drop (pos + 2) (incomplete_data s),
              sent = sent s @ [''-ERR empty command'' @ CRLF],
              store = store s, handled = Suc (handled s)\<rparr>"
proof -
  have "parse_resp (take (pos + 2) (incomplete_data s)) = Inr []"
    using assms(2,3) parse_resp_wrong_sigil parse_resp_negative_count by blast
  then show ?thesis
    using assms(1)
    by (subst process_buffer.simps) (simp add: handle_command_empty)
qed

text \<open>
  The line \<open>*-1\r\n\<close> (a negative count) is answered with the error and the request behind
  it, a \<open>PING\<close> whose lines end in a bare LF, is still served.
\<close>

theorem malformed_line_answered_and_skipped_witness:
  "find_crlf (''*-1'' @ CRLF @ ''*1'' @ [LF] @ ''$4'' @ [LF] @ ''PING'' @ [LF] @ CRLF) = Some 3
   \<and> stoi (''-1'' @ [CR]) = Inr (- 1)
   \<and> process_buffer (fixed_clock 0)
        \<lparr>incomplete_data = ''*-1'' @ CRLF @ ''*1'' @ [LF] @ ''$4'' @ [LF] @ ''PING'' @ [LF] @ CRLF,
         sent = [], store = empty_store, handled = 0\<rparr>
     = Inr \<lparr>incomplete_data = [], sent = [''-ERR empty command'' @ CRLF, ''+PONG'' @ CRLF],
            store = empty_store, handled = 2\<rparr>"
proof -
  let ?buf = "''*-1'' @ CRLF @ ''*1'' @ [LF] @ ''$4'' @ [LF] @ ''PING'' @ [LF] @ CRLF"
  let ?s = "\<lparr>incomplete_data = ?buf, sent = [], store = empty_store, handled = 0\<rparr>"
  have pos: "find_crlf (incomplete_data ?s) = Some 3"
    by (simp add: byte_defs)
  have line: "''*-1'' @ [CR] = takeWhile (\<lambda>c. c \<noteq> LF) (take (3 + 2) (incomplete_data ?s))"
    by (simp add: byte_defs)
  have count: "stoi (''-1'' @ [CR]) = Inr (- 1)"
    by (simp add: strtol_defs byte_defs)
  then have bad: "front (''*-1'' @ [CR]) \<noteq> CHR ''*''
      \<or> (\<exists>n. stoi (drop 1 (''*-1'' @ [CR])) = Inr n \<and> n < 0)"
    by simp
  have step: "process_buffer (fixed_clock 0) ?s =
      process_buffer (fixed_clock 0)
        \<lparr>incomplete_data = ''*1'' @ [LF] @ ''$4'' @ [LF] @ ''PING'' @ [LF] @ CRLF,
         sent = [''-ERR empty command'' @ CRLF], store = empty_store, handled = 1\<rparr>"
    using malformed_line_answered_and_skipped [OF pos line bad, of "fixed_clock 0"]
    by (simp add: byte_defs)
  have rest: "process_buffer (fixed_clock 0)
        \<lparr>incomplete_data = ''*1'' @ [LF] @ ''$4'' @ [LF] @ ''PING'' @ [LF] @ CRLF,
         sent = [''-ERR empty command'' @ CRLF], store = empty_store, handled = 1\<rparr>
      = Inr \<lparr>incomplete_data = [], sent = [''-ERR empty command'' @ CRLF, ''+PONG'' @ CRLF],
            store = empty_store, handled = 2\<rparr>"
    by (simp add: process_buffer.simps parse_defs strtol_defs byte_defs eval_nat_numeral
          command_defs upper_defs)
  show ?thesis
    using pos count step rest by simp
qed

text \<open>
  Against C4 as stated: after the line \<open>$4\r\n\<close>, which has the wrong leading sigil, the
  connection is not closed; the request that follows is processed and answered \<open>+PONG\<close>.
\<close>

theorem wrong_sigil_keeps_connection_open:
  "process_buffer (fixed_clock 0)
     \<lparr>incomplete_data = ''$4'' @ CRLF @ ''*1'' @ [LF] @ ''$4'' @ [LF] @ ''PING'' @ [LF] @ CRLF,
      sent = [], store = empty_store, handled = 0\<rparr>
   = Inr \<lparr>incomplete_data = [], sent = [''-ERR empty command'' @ CRLF, ''+PONG'' @ CRLF],
          store = empty_store, handled = 2\<rparr>"
  by (simp add: process_buffer.simps parse_defs strtol_defs byte_defs eval_nat_numeral
        command_defs upper_defs)

section \<open>Command dispatch\<close>

text \<open>
  C2. \<open>handle_command\<close> should read only elements that \<open>parts\<close> has. A SET of two elements
  (the name and a key) passes the guard \<open>parts.size() >= 2\<close> and then reads \<open>parts[2]\<close>,
  one past the end; the bytes \<open>*2\nSET..\<close> below reach that call through \<open>handle_client\<close>.
\<close>

theorem set_without_value_reads_out_of_range:
  "handle_command [''SET'', ''k''] now kv = Inl (OutOfRange 2)
   \<and> parse_resp (''*2'' @ [LF] @ ''$3'' @ [LF] @ ''SET'' @ [LF] @ ''$1'' @ [LF] @ ''k'' @ [LF] @ CRLF)
       = Inr [''SET'', ''k'']
   \<and> process_buffer clock
        \<lparr>incomplete_data =
           ''*2'' @ [LF] @ ''$3'' @ [LF] @ ''SET'' @ [LF] @ ''$1'' @ [LF] @ ''k'' @ [LF] @ CRLF,
         sent = [], store = kv, handled = 0\<rparr>
       = Inl (OutOfRange 2)"
proof (intro conjI)
  show call: "handle_command [''SET'', ''k''] t kv = Inl (OutOfRange 2)" for t
    by (simp add: command_defs upper_defs)
  show decoded: "parse_resp (''*2'' @ [LF] @ ''$3'' @ [LF] @ ''SET'' @ [LF] @ ''$1'' @ [LF] @ ''k'' @ [LF] @ CRLF)
       = Inr [''SET'', ''k'']"
    by (simp add: parse_defs strtol_defs byte_defs eval_nat_numeral)
  show "process_buffer clock
        \<lparr>incomplete_data =
           ''*2'' @ [LF] @ ''$3'' @ [LF] @ ''SET'' @ [LF] @ ''$1'' @ [LF] @ ''k'' @ [LF] @ CRLF,
         sent = [], store = kv, handled = 0\<rparr>
       = Inl (OutOfRange 2)"
    using decoded by (simp add: process_buffer.simps byte_defs call)
qed

text \<open>
  C3. SET with a PX option, as the code has it: the millis argument is read by
  \<open>std::stol\<close>, and whenever \<open>std::stol\<close> throws (there is no integer at the start of the
  argument, or its value does not fit a \<open>long\<close>) the reply is
  \<open>-ERR invalid expire time in 'set' command\<close> and the store, with any prior entry of the
  key, is left as it was.
\<close>

theorem set_px_unparsable_millis_rejected:
  assumes "to_upper c = ''SET''" and "to_upper p = ''PX''" and "stol ms = Inl e"
  shows "handle_command (c # key # val # p # ms # extra) now kv =
           Inr (''-ERR invalid expire time in 'set' command'' @ CRLF, kv)"
  using handle_command_SET_px [OF assms(1,2)] assms(3) by simp

theorem set_px_unparsable_millis_rejected_witness:
  "to_upper ''set'' = ''SET'' \<and> to_upper ''px'' = ''PX'' \<and> stol ''abc'' = Inl invalid_argument
   \<and> handle_command [''set'', ''k'', ''v'', ''px'', ''abc''] 7
        (empty_store(''k'' \<mapsto> \<lparr>value' = ''old'', expiry = 9, has_expiry = True\<rparr>))
      = Inr (''-ERR invalid expire time in 'set' command'' @ CRLF,
             empty_store(''k'' \<mapsto> \<lparr>value' = ''old'', expiry = 9, has_expiry = True\<rparr>))"
proof -
  have c: "to_upper ''set'' = ''SET''" by (simp add: upper_defs)
  have p: "to_upper ''px'' = ''PX''" by (simp add: upper_defs)
  have ms: "stol ''abc'' = Inl invalid_argument" by (simp add: strtol_defs)
  show ?thesis
    using c p ms set_px_unparsable_millis_rejected [OF c p ms, of "''k''" "''v''" "[]" 7]
    by simp
qed

text \<open>
  Against C3 as stated: \<open>-5\<close> is not a non-negative integer, yet \<open>SET k v PX -5\<close> is
  answered \<open>+OK\<close> and the entry is stored, with an expiry five milliseconds before the
  clock reading.
\<close>

theorem set_px_negative_millis_accepted:
  "\<not> spec_non_negative_integer ''-5''
   \<and> handle_command [''SET'', ''k'', ''v'', ''PX'', ''-5''] 0 empty_store
       = Inr (''+OK'' @ CRLF,
              empty_store(''k'' \<mapsto> \<lparr>value' = ''v'', expiry = - 5000000, has_expiry = True\<rparr>))"
  by (simp add: spec_non_negative_integer_def command_defs upper_defs strtol_defs
        ValueWithExpiry_px_def in_int64_def)

text \<open>
  C6. GET on a key whose entry has an expiry strictly before the clock reading: the entry
  is erased and the reply is \<open>$-1\<close>, the reply and the store that the same GET gives when
  the key is absent.
\<close>

theorem get_deletes_entry_past_expiry:
  assumes "to_upper g = ''GET''" and "kv key = Some e" and "expires_at e = Some t" and "t < now"
  shows "handle_command (g # key # extra) now kv = Inr (''$-1'' @ CRLF, kv(key := None))
       \<and> handle_command (g # key # extra) now (kv(key := None))
           = Inr (''$-1'' @ CRLF, kv(key := None))"
  using assms handle_command_GET [OF assms(1), of key extra now]
  by (auto simp add: expires_at_def is_expired_def split: if_splits)

theorem get_deletes_entry_past_expiry_witness:
  "to_upper ''get'' = ''GET''
   \<and> expires_at \<lparr>value' = ''v'', expiry = 5, has_expiry = True\<rparr> = Some 5 \<and> (5 :: int) < 6
   \<and> handle_command [''get'', ''k''] 6
        (empty_store(''k'' \<mapsto> \<lparr>value' = ''v'', expiry = 5, has_expiry = True\<rparr>))
      = Inr (''$-1'' @ CRLF, empty_store(''k'' := None))
   \<and> handle_command [''get'', ''k''] 6 (empty_store(''k'' := None))
      = Inr (''$-1'' @ CRLF, empty_store(''k'' := None))"
proof -
  have g: "to_upper ''get'' = ''GET''" by (simp add: upper_defs)
  have e: "expires_at \<lparr>value' = ''v'', expiry = 5, has_expiry = True\<rparr> = Some 5"
    by (simp add: expires_at_def)
  have k: "(empty_store(''k'' \<mapsto> \<lparr>value' = ''v'', expiry = 5, has_expiry = True\<rparr>)) ''k''
             = Some \<lparr>value' = ''v'', expiry = 5, has_expiry = True\<rparr>" by simp
  have lt: "(5 :: int) < 6" by simp
  show ?thesis
    using g e get_deletes_entry_past_expiry [where g = "''get''" and key = "''k''"
        and extra = "[]" and now = 6
        and kv = "empty_store(''k'' \<mapsto> \<lparr>value' = ''v'', expiry = 5, has_expiry = True\<rparr>)",
        OF g k e lt]
    by simp
qed

text \<open>
  Against C6 as stated: an entry whose expiry equals the clock reading is not expired
  (\<open>is_expired\<close> tests \<open>now > expiry\<close>); GET returns its value and the entry stays.
\<close>

theorem get_at_expiry_instant_returns_value:
  "expires_at \<lparr>value' = ''v'', expiry = 5, has_expiry = True\<rparr> = Some 5
   \<and> handle_command [''GET'', ''k''] 5
        (empty_store(''k'' \<mapsto> \<lparr>value' = ''v'', expiry = 5, has_expiry = True\<rparr>))
      = Inr (''+v'' @ CRLF,
             empty_store(''k'' \<mapsto> \<lparr>value' = ''v'', expiry = 5, has_expiry = True\<rparr>))"
  by (simp add: expires_at_def command_defs upper_defs is_expired_def)

text \<open>
  C7. SET key value followed by GET key returns the value, framed \<open>+value\r\n\<close> (the
  specification's encoding of a Bulk reply): for the plain SET at any two clock readings,
  and for any SET that was answered \<open>+OK\<close>, options included, when the stored entry has
  not expired at the time of the GET and the store is the one the SET left. GET on a key
  that the store does not hold returns \<open>$-1\<close> (Nil) and leaves the store as it was.
\<close>

theorem set_then_get_returns_value:
  assumes "to_upper c = ''SET''" and "to_upper g = ''GET''"
  shows "handle_command [c, key, val] now kv
           = Inr (''+OK'' @ CRLF, kv(key \<mapsto> ValueWithExpiry val))
       \<and> handle_command [g, key] now' (kv(key \<mapsto> ValueWithExpiry val))
           = Inr (''+'' @ val @ CRLF, kv(key \<mapsto> ValueWithExpiry val))
       \<and> (handle_command (c # key # val # opts) now kv = Inr (''+OK'' @ CRLF, kv')
            \<and> (\<forall>e. kv' key = Some e \<longrightarrow> \<not> is_expired e now')
           \<longrightarrow> handle_command [g, key] now' kv' = Inr (''+'' @ val @ CRLF, kv'))
       \<and> (kv key = None \<longrightarrow> handle_command [g, key] now' kv = Inr (''$-1'' @ CRLF, kv))"
proof (intro conjI impI)
  show "handle_command [c, key, val] now kv
          = Inr (''+OK'' @ CRLF, kv(key \<mapsto> ValueWithExpiry val))"
    using handle_command_SET_plain [OF assms(1), of "[]"] by simp
  show "handle_command [g, key] now' (kv(key \<mapsto> ValueWithExpiry val))
          = Inr (''+'' @ val @ CRLF, kv(key \<mapsto> ValueWithExpiry val))"
    using handle_command_GET [OF assms(2), of key "[]"]
    by (simp add: ValueWithExpiry_def is_expired_def)
  show "handle_command [g, key] now' kv = Inr (''$-1'' @ CRLF, kv)" if "kv key = None"
    using that handle_command_GET [OF assms(2), of key "[]"] by simp
  show "handle_command [g, key] now' kv' = Inr (''+'' @ val @ CRLF, kv')"
    if ok: "handle_command (c # key # val # opts) now kv = Inr (''+OK'' @ CRLF, kv')
            \<and> (\<forall>e. kv' key = Some e \<longrightarrow> \<not> is_expired e now')"
  proof -
    from SET_accepted_entry [OF assms(1)] ok
    obtain e where e: "kv' key = Some e" "value' e = val"
      by fastforce
    with ok have "\<not> is_expired e now'" by blast
    with e show ?thesis
      using handle_command_GET [OF assms(2), of key "[]" now' kv'] by simp
  qed
qed

theorem set_then_get_returns_value_witness:
  "to_upper ''set'' = ''SET'' \<and> to_upper ''get'' = ''GET''
   \<and> handle_command [''set'', ''foo'', ''bar''] 0 empty_store
       = Inr (''+OK'' @ CRLF, empty_store(''foo'' \<mapsto> ValueWithExpiry ''bar''))
   \<and> handle_command [''get'', ''foo''] 9 (empty_store(''foo'' \<mapsto> ValueWithExpiry ''bar''))
       = Inr (''+bar'' @ CRLF, empty_store(''foo'' \<mapsto> ValueWithExpiry ''bar''))
   \<and> handle_command [''set'', ''foo'', ''bar'', ''px'', ''100''] 0 empty_store
       = Inr (''+OK'' @ CRLF,
              empty_store(''foo'' \<mapsto> \<lparr>value' = ''bar'', expiry = 100000000, has_expiry = True\<rparr>))
   \<and> \<not> is_expired \<lparr>value' = ''bar'', expiry = 100000000, has_expiry = True\<rparr> 9
   \<and> handle_command [''get'', ''foo''] 9
        (empty_store(''foo'' \<mapsto> \<lparr>value' = ''bar'', expiry = 100000000, has_expiry = True\<rparr>))
       = Inr (''+bar'' @ CRLF,
              empty_store(''foo'' \<mapsto> \<lparr>value' = ''bar'', expiry = 100000000, has_expiry = True\<rparr>))
   \<and> empty_store ''foo'' = None
   \<and> handle_command [''get'', ''foo''] 9 empty_store = Inr (''$-1'' @ CRLF, empty_store)"
proof -
  have c: "to_upper ''set'' = ''SET''" by (simp add: upper_defs)
  have g: "to_upper ''get'' = ''GET''" by (simp add: upper_defs)
  have px: "handle_command [''set'', ''foo'', ''bar'', ''px'', ''100''] 0 empty_store
       = Inr (''+OK'' @ CRLF,
              empty_store(''foo'' \<mapsto> \<lparr>value' = ''bar'', expiry = 100000000, has_expiry = True\<rparr>))"
    by (simp add: command_defs upper_defs strtol_defs ValueWithExpiry_px_def in_int64_def)
  have fresh: "\<not> is_expired \<lparr>value' = ''bar'', expiry = 100000000, has_expiry = True\<rparr> 9"
    by (simp add: is_expired_def)
  have none: "empty_store ''foo'' = None"
    by (simp add: empty_store_def)
  show ?thesis
    using c g px fresh none
      set_then_get_returns_value [OF c g, of "''foo''" "''bar''" 0 empty_store 9 "[''px'', ''100'']"
        "empty_store(''foo'' \<mapsto> \<lparr>value' = ''bar'', expiry = 100000000, has_expiry = True\<rparr>)"]
    by simp
qed

text \<open>
  C8. A SET without a PX option (no fourth element \<open>PX\<close> followed by a fifth) replaces the
  entry of its key wholesale: the new entry holds the new value and has no expiry,
  whatever the store held for the key before.
\<close>

theorem set_without_px_replaces_entry:
  assumes "to_upper c = ''SET''"
    and "\<not> (2 \<le> length opts \<and> to_upper (opts ! 0) = ''PX'')"
  shows "handle_command (c # key # val # opts) now kv
           = Inr (''+OK'' @ CRLF, kv(key \<mapsto> \<lparr>value' = val, expiry = 0, has_expiry = False\<rparr>))
       \<and> expires_at \<lparr>value' = val, expiry = 0, has_expiry = False\<rparr> = None"
  using handle_command_SET_plain [OF assms, of key val now kv]
  by (simp add: ValueWithExpiry_def expires_at_def)

theorem set_without_px_replaces_entry_witness:
  "to_upper ''set'' = ''SET''
   \<and> \<not> (2 \<le> length ([] :: string list) \<and> to_upper (([] :: string list) ! 0) = ''PX'')
   \<and> handle_command [''set'', ''k'', ''new''] 3
        (empty_store(''k'' \<mapsto> \<lparr>value' = ''old'', expiry = 9, has_expiry = True\<rparr>))
       = Inr (''+OK'' @ CRLF,
              empty_store(''k'' \<mapsto> \<lparr>value' = ''new'', expiry = 0, has_expiry = False\<rparr>))
   \<and> expires_at \<lparr>value' = ''new'', expiry = 0, has_expiry = False\<rparr> = None"
proof -
  have c: "to_upper ''set'' = ''SET''" by (simp add: upper_defs)
  have no_px: "\<not> (2 \<le> length ([] :: string list) \<and> to_upper (([] :: string list) ! 0) = ''PX'')"
    by simp
  show ?thesis
    using c no_px
      set_without_px_replaces_entry [OF c no_px, of "''k''" "''new''" 3
        "empty_store(''k'' \<mapsto> \<lparr>value' = ''old'', expiry = 9, has_expiry = True\<rparr>)"]
    by simp
qed

text \<open>
  C9. The command name is compared without regard to letter case: two requests whose
  first elements differ only in letter case get the same reply and leave the same store
  (and fail alike), and a name whose upper-case form is none of \<open>PING\<close>, \<open>ECHO\<close>, \<open>SET\<close>,
  \<open>GET\<close> gets the reply \<open>-ERR unknown command\<close> with the store untouched.
\<close>

theorem command_name_case_insensitive:
  "(differ_only_in_case c1 c2
      \<longrightarrow> handle_command (c1 # args) now kv = handle_command (c2 # args) now kv)
   \<and> (to_upper c \<notin> {''PING'', ''ECHO'', ''SET'', ''GET''}
      \<longrightarrow> handle_command (c # args) now kv = Inr (''-ERR unknown command'' @ CRLF, kv))"
  using to_upper_differ [of c1 c2] handle_command_name [of c1 c2 args now kv]
    handle_command_unknown [of c args now kv]
  by blast

theorem command_name_case_insensitive_witness:
  "differ_only_in_case ''set'' ''SeT''
   \<and> handle_command [''set'', ''k'', ''v''] 0 empty_store
       = handle_command [''SeT'', ''k'', ''v''] 0 empty_store
   \<and> to_upper ''flush'' \<notin> {''PING'', ''ECHO'', ''SET'', ''GET''}
   \<and> handle_command [''flush'', ''k'', ''v''] 0 empty_store
       = Inr (''-ERR unknown command'' @ CRLF, empty_store)"
proof -
  have d: "differ_only_in_case ''set'' ''SeT''"
    by (simp add: differ_only_in_case_def same_letter_def)
  have u: "to_upper ''flush'' \<notin> {''PING'', ''ECHO'', ''SET'', ''GET''}"
    by (simp add: upper_defs)
  show ?thesis
    using d u
      command_name_case_insensitive [of "''set''" "''SeT''" "[''k'', ''v'']" 0 empty_store "''flush''"]
    by simp
qed

end
